theory Spec2Isabelle
  imports Main "HOL-Library.Word"
begin

unbundle bit_operations_syntax

section \<open>The tether agents of vic-ui\<close>

text \<open>
  The repository holds two agents, each a Go \<^verbatim>\<open>package main\<close>:
  the direct agent (\<^verbatim>\<open>src/unnamed/part_001\<close>), which runs inside the guest, owns
  the serial device \<^verbatim>\<open>ttyS0\<close> and reaps children when it is process 1, and the
  console-driven proxy (\<^verbatim>\<open>src/bootstrap/targets/proxy/tether/tether.go\<close>), which
  accepts guest connections and drives a DOS console.

  Both are modelled as functions from what the operating system and the collaborators
  answer (records and lists of answers) to the sequence of operations the program performs
  (a list of actions) and how it ends. Go strings and byte slices are \<^typ>\<open>string\<close>
  (a list of 8-bit characters). A log call is represented by its format string, without
  the line break that ends some of them.
\<close>

subsection \<open>Shared data\<close>

text \<open>A Go \<^verbatim>\<open>error\<close> value: a \<^verbatim>\<open>syscall.Errno\<close> or any other error.\<close>

datatype error = Errno nat | Err string

definition ECHILD :: error where
  "ECHILD = Errno 10"

datatype Signer = Signer string

type_synonym TCPConn = nat

text \<open>
  The operations a run performs, in order. \<open>'h\<close> is the handler handed to the session
  layer: the direct agent's \<^verbatim>\<open>GlobalHandler\<close> has the single field \<^verbatim>\<open>id\<close> and is
  modelled by that string; the proxy's is the record \<open>GlobalHandler\<close> below.
\<close>

datatype 'h action =
    Log string
  | Go_ListenAndServe string
  | Mknod string "64 word"
  | Open string
  | ReadFile string
  | ParsePrivateKey
  | Pipe
  | Go_childReaper
  | Notify_SIGHUP
  | Kill_SIGHUP
  | Recv_hup
  | OpenFile string
  | NewFileConn
  | HandshakeServer
  | StartTether 'h
  | Close string
  | ExternalIP
  | ResolveTCPAddr
  | ListenTCP
  | AcceptTCP
  | Go_handleConnectionFromGuest TCPConn
  | Dial string
  | DiscardUntilPrompt
  | CmdCombinedOutput string
  | CmdStart string

text \<open>
  How a run stands after the answers it was given: \<open>MainReturned\<close> is a \<^verbatim>\<open>return\<close>
  from \<^verbatim>\<open>main\<close> (the process ends), \<open>FatalExit\<close> is \<^verbatim>\<open>log.Fatalf\<close> (the process
  ends with status 1, deferred calls do not run), \<open>AwaitingHup\<close> is blocked in
  \<^verbatim>\<open><-hup\<close> (the spec's Idle state), \<open>InAcceptTCP\<close> is blocked in
  \<^verbatim>\<open>ln.AcceptTCP()\<close>.
\<close>

datatype outcome = MainReturned | FatalExit | AwaitingHup | InAcceptTCP

text \<open>
  Modelled from the spec: \<^verbatim>\<open>serial.HandshakeServer\<close> belongs to a package that is not
  under src/. Spec 6, Handshake: a bounded-timeout exchange confirming the peer is the
  expected counterpart. \<open>res\<close> is how the exchange ends (\<open>None\<close> for success); both
  callers write the call as a statement, so they do not read it.
\<close>

definition serial_HandshakeServer :: "error option \<Rightarrow> error option \<times> 'h action list" where
  "serial_HandshakeServer res = (res, [HandshakeServer])"

text \<open>
  Modelled from the spec: \<^verbatim>\<open>tether.StartTether\<close> belongs to a package that is not under
  src/. Spec 6, Session layer: \<open>Start(stream, signingKey, handler)\<close> blocks and runs the
  session until disconnect or fatal error. \<open>res\<close> is how the session ends; both callers
  write the call as a statement.
\<close>

definition tether_StartTether :: "error option \<Rightarrow> 'h \<Rightarrow> error option \<times> 'h action list" where
  "tether_StartTether res handler = (res, [StartTether handler])"

text \<open>The handlers passed to the session layer in a trace, and the console commands started.\<close>

fun started :: "'h action list \<Rightarrow> 'h list" where
  "started [] = []"
| "started (StartTether h # as) = h # started as"
| "started (a # as) = started as"

fun commands :: "'h action list \<Rightarrow> string list" where
  "commands [] = []"
| "commands (CmdStart s # as) = s # commands as"
| "commands (a # as) = commands as"

subsection \<open>\<^verbatim>\<open>privateKey\<close>, \<^verbatim>\<open>Mkdev\<close> and \<^verbatim>\<open>id\<close> (part_001 lines 50-84)\<close>

text \<open>
  \<^verbatim>\<open>privateKey(file)\<close>: \<open>rd\<close> is what \<^verbatim>\<open>ioutil.ReadFile(file)\<close> returns (\<open>None\<close>
  for an error), \<open>parse\<close> is \<^verbatim>\<open>ssh.ParsePrivateKey\<close>. A result without a signer is
  \<^verbatim>\<open>log.Fatalf\<close>: the process exits there. The file read is the one the flag
  \<^verbatim>\<open>tetherKey\<close> names; the trace records it under that name.
\<close>

definition privateKey :: "string option \<Rightarrow> (string \<Rightarrow> Signer option) \<Rightarrow> 'h action list \<times> Signer option" where
  "privateKey rd parse =
     (case rd of
        None \<Rightarrow> ([ReadFile ''tetherKey'', Log ''failed to load private key: %v''], None)
      | Some privateBytes \<Rightarrow>
          (case parse privateBytes of
             None \<Rightarrow> ([ReadFile ''tetherKey'', ParsePrivateKey, Log ''failed to parse private key: %v''], None)
           | Some private \<Rightarrow> ([ReadFile ''tetherKey'', ParsePrivateKey], Some private)))"

definition Mkdev :: "64 word \<Rightarrow> 64 word \<Rightarrow> 64 word" where
  "Mkdev majorNumber minorNumber =
     (push_bit 8 majorNumber) OR (minorNumber AND 0xff) OR (push_bit 12 (minorNumber AND 0xfff00))"

datatype fatal = Fatalf string

text \<open>
  \<^verbatim>\<open>id()\<close>: \<open>rd\<close> is what \<^verbatim>\<open>ioutil.ReadFile("/.tether-init/docker-id")\<close> returns.
\<close>

definition id_file :: "string option \<Rightarrow> fatal + string" where
  "id_file rd =
     (case rd of
        None \<Rightarrow> Inl (Fatalf ''failed to read ID from file: %s'')
      | Some i \<Rightarrow> if length i > 64 then Inr (take 64 i) else Inr i)"

subsection \<open>\<^verbatim>\<open>childReaper\<close> (part_001 lines 86-124)\<close>

type_synonym WaitStatus = "32 word"

text \<open>A channel \<^verbatim>\<open>chan syscall.WaitStatus\<close> is a reference; it is modelled by its identity.\<close>

type_synonym chan = nat

text \<open>\<^verbatim>\<open>childPidTable\<close>: \<^verbatim>\<open>map[int]chan syscall.WaitStatus\<close>.\<close>

type_synonym table = "int \<rightharpoonup> chan"

text \<open>
  One answer of \<^verbatim>\<open>syscall.Wait4(-1, &status, syscall.WNOHANG, nil)\<close>: the pid and
  error it returns and the status it stores.
\<close>

record wait4 =
  w_pid :: int
  w_err :: "error option"
  w_status :: WaitStatus

text \<open>
  A channel's state: the statuses buffered in it and the number of receivers waiting on
  it. The channels of the table are made outside src/; by the comment of lines 110-112
  they buffer one status.
\<close>

record chanstate =
  buffered :: "WaitStatus list"
  waiting :: nat

type_synonym buffers = "chan \<Rightarrow> chanstate"

definition capacity :: nat where
  "capacity = 1"

text \<open>
  What happens around the reaper, in order: an answer to its next call of \<^verbatim>\<open>Wait4\<close>,
  or another task receiving from a channel (the spawner taking the status of its child).
\<close>

datatype env = Answer wait4 | Receive chan

text \<open>
  A receive takes the oldest buffered status; on an empty channel the receiver waits. A send
  goes through when a receiver waits or the buffer has room, and blocks otherwise.
\<close>

definition receive :: "chan \<Rightarrow> buffers \<Rightarrow> buffers" where
  "receive c bufs =
     (case buffered (bufs c) of
        [] \<Rightarrow> bufs(c := (bufs c)\<lparr>waiting := Suc (waiting (bufs c))\<rparr>)
      | s # ss \<Rightarrow> bufs(c := (bufs c)\<lparr>buffered := ss\<rparr>))"

definition can_send :: "chanstate \<Rightarrow> bool" where
  "can_send st = (0 < waiting st \<or> length (buffered st) < capacity)"

definition do_send :: "WaitStatus \<Rightarrow> chanstate \<Rightarrow> chanstate" where
  "do_send s st =
     (if 0 < waiting st then st\<lparr>waiting := waiting st - 1\<rparr>
      else st\<lparr>buffered := buffered st @ [s]\<rparr>)"

text \<open>
  \<^verbatim>\<open>statusChan <- status\<close> (line 113). A send that cannot go through waits for
  receives; it is still blocked when the next thing to happen is an answer of \<^verbatim>\<open>Wait4\<close>
  (which the reaper, stuck in the send, does not ask for) or nothing. The result says
  whether the send went through, and gives the channels and what is left to happen.
\<close>

fun send :: "chan \<Rightarrow> WaitStatus \<Rightarrow> buffers \<Rightarrow> env list \<Rightarrow> bool \<times> buffers \<times> env list" where
  "send c s bufs [] =
     (if can_send (bufs c) then (True, bufs(c := do_send s (bufs c)), []) else (False, bufs, []))"
| "send c s bufs (Receive c' # xs) =
     (if can_send (bufs c) then (True, bufs(c := do_send s (bufs c)), Receive c' # xs)
      else send c s (receive c' bufs) xs)"
| "send c s bufs (Answer r # xs) =
     (if can_send (bufs c) then (True, bufs(c := do_send s (bufs c)), Answer r # xs)
      else (False, bufs, Answer r # xs))"

datatype revent = RLog string | Wait4 | Send chan WaitStatus

text \<open>
  How the body of the inner loop ends: \<^verbatim>\<open>break\<close>, the next iteration, or stuck in the
  send of line 113.
\<close>

datatype ctl = Break | Continue | Blocked

text \<open>
  The body of the inner \<^verbatim>\<open>for\<close> loop (lines 95-121) for one answer \<open>r\<close> of
  \<^verbatim>\<open>Wait4\<close>; \<open>xs\<close> is what happens after that answer. The table is read under the
  mutex and returned as the body leaves it. A \<open>Send\<close> is recorded when the send has gone
  through.
\<close>

definition reap_step ::
  "table \<Rightarrow> buffers \<Rightarrow> wait4 \<Rightarrow> env list \<Rightarrow> ctl \<times> table \<times> buffers \<times> revent list \<times> env list" where
  "reap_step childPidTable bufs r xs =
     (if w_pid r = 0 \<or> w_err r = Some ECHILD then
        (Break, childPidTable, bufs,
         [RLog ''Reaping child processes'', Wait4, RLog ''No more child processes to reap''], xs)
      else if w_err r = None then
        (case childPidTable (w_pid r) of
           Some statusChan \<Rightarrow>
             (case send statusChan (w_status r) bufs xs of
                (True, bufs', xs') \<Rightarrow>
                  (Continue, childPidTable, bufs',
                   [RLog ''Reaping child processes'', Wait4,
                    RLog ''Reaped process %d, return code: %d'', Send statusChan (w_status r)],
                   xs')
              | (False, bufs', xs') \<Rightarrow>
                  (Blocked, childPidTable, bufs',
                   [RLog ''Reaping child processes'', Wait4,
                    RLog ''Reaped process %d, return code: %d''],
                   xs'))
         | None \<Rightarrow>
             (Continue, childPidTable, bufs,
              [RLog ''Reaping child processes'', Wait4,
               RLog ''Reaped process %d, return code: %d'', RLog ''Reaped zombie process PID %d''],
              xs))
      else
        (Continue, childPidTable, bufs,
         [RLog ''Reaping child processes'', Wait4, RLog ''Wait4 got error: %v''], xs))"

text \<open>
  The inner loop (lines 94-122) against what happens around it. It leaves by
  \<^verbatim>\<open>break\<close> only: \<open>Continue\<close> with nothing left means the loop is still running after
  what was given, \<open>Blocked\<close> that it is stuck in a send. The last component is what has
  not happened yet for the reaper: the answers it has not asked for.
\<close>

function drain ::
  "table \<Rightarrow> buffers \<Rightarrow> env list \<Rightarrow> ctl \<times> table \<times> buffers \<times> revent list \<times> env list" where
  "drain tbl bufs [] = (Continue, tbl, bufs, [], [])"
| "drain tbl bufs (Receive c # xs) = drain tbl (receive c bufs) xs"
| "drain tbl bufs (Answer r # xs) =
     (case reap_step tbl bufs r xs of
        (c, tbl', bufs', es, xs') \<Rightarrow>
          (case c of
             Continue \<Rightarrow>
               (case drain tbl' bufs' xs' of
                  (c', tbl'', bufs'', es', rest) \<Rightarrow> (c', tbl'', bufs'', es @ es', rest))
           | _ \<Rightarrow> (c, tbl', bufs', es, xs')))"
  by pat_completeness auto
termination
proof (relation "measure (\<lambda>(tbl, bufs, xs). length xs)")
  show "wf (measure (\<lambda>(tbl, bufs, xs). length xs))" by simp
next
  fix tbl :: table and bufs :: buffers and c xs
  show "((tbl, receive c bufs, xs), (tbl, bufs, Receive c # xs))
          \<in> measure (\<lambda>(tbl, bufs, xs). length xs)"
    by simp
next
  fix tbl tbl' :: table and bufs bufs' :: buffers and r xs xs' es x y z c
  assume a: "(c, x) = reap_step tbl bufs r xs" "(tbl', y) = x" "(bufs', z) = y" "(es, xs') = z"
  have snd_len: "length (snd (snd (send ch s b ys))) \<le> length ys" for ch s b ys
    by (induction ch s b ys rule: send.induct) (auto simp: le_SucI)
  have "xs' = snd (snd (snd (snd (reap_step tbl bufs r xs))))"
    using a by (metis snd_conv)
  also have "length \<dots> \<le> length xs"
    using snd_len [of "the (tbl (w_pid r))" "w_status r" bufs xs]
    by (auto simp: reap_step_def split: option.splits prod.splits bool.splits)
  finally show "((tbl', bufs', xs'), (tbl, bufs, Answer r # xs))
          \<in> measure (\<lambda>(tbl, bufs, xs). length xs)"
    by simp
qed

text \<open>
  Where the reaper task stands: blocked in \<^verbatim>\<open>range incoming\<close>, inside the inner loop,
  stuck in the send of line 113, or returned from \<^verbatim>\<open>childReaper\<close>.
\<close>

datatype reaper_status = Blocked_on_incoming | In_Wait4_loop | Blocked_in_send | Reaper_returned

text \<open>
  The outer loop (lines 90-123): \<open>n\<close> notifications are received from \<^verbatim>\<open>incoming\<close>,
  \<open>xs\<close> is what happens around the reaper.
\<close>

fun childReaper ::
  "nat \<Rightarrow> table \<Rightarrow> buffers \<Rightarrow> env list \<Rightarrow> reaper_status \<times> table \<times> buffers \<times> revent list" where
  "childReaper 0 tbl bufs xs = (Blocked_on_incoming, tbl, bufs, [])"
| "childReaper (Suc n) tbl bufs xs =
     (case drain tbl bufs xs of
        (Continue, tbl', bufs', es, rest) \<Rightarrow> (In_Wait4_loop, tbl', bufs', es)
      | (Blocked, tbl', bufs', es, rest) \<Rightarrow> (Blocked_in_send, tbl', bufs', es)
      | (Break, tbl', bufs', es, rest) \<Rightarrow>
          (case childReaper n tbl' bufs' rest of
             (s, tbl'', bufs'', es') \<Rightarrow> (s, tbl'', bufs'', es @ es')))"

text \<open>The condition of line 97 under which the inner loop breaks.\<close>

definition no_more :: "wait4 \<Rightarrow> bool" where
  "no_more r = (w_pid r = 0 \<or> w_err r = Some ECHILD)"

text \<open>The sends a trace of the reaper performs, in order.\<close>

fun sends :: "revent list \<Rightarrow> (chan \<times> WaitStatus) list" where
  "sends [] = []"
| "sends (Send c s # es) = (c, s) # sends es"
| "sends (e # es) = sends es"

text \<open>Channels with nothing buffered and no receiver waiting.\<close>

definition idle :: buffers where
  "idle = (\<lambda>c. \<lparr>buffered = [], waiting = 0\<rparr>)"

subsection \<open>\<^verbatim>\<open>main\<close> of the direct agent (part_001 lines 126-209)\<close>

text \<open>What the operating system answers during startup (lines 137-161).\<close>

record startup =
  mknod_urandom :: "error option"
  open_urandom :: "error option"
  key_file :: "string option"
  parse_key :: "string \<Rightarrow> Signer option"
  mknod_ttyS0 :: "error option"
  getpid :: int

text \<open>
  What is answered during one pass of the loop of lines 171-208, that is, after one
  \<^verbatim>\<open>SIGHUP\<close> received from \<^verbatim>\<open>hup\<close>: the errors of the open, of
  \<^verbatim>\<open>serial.NewFileConn\<close>, the read of the identity file, and how the handshake and
  the session end.
\<close>

record cycle =
  open_ttyS0 :: "error option"
  new_file_conn :: "error option"
  docker_id :: "string option"
  handshake_err :: "error option"
  session_err :: "error option"

text \<open>
  The loop of lines 171-208. \<open>d\<close> counts the \<^verbatim>\<open>defer f.Close()\<close> registered so far;
  they run when \<^verbatim>\<open>main\<close> returns and do not run on \<^verbatim>\<open>log.Fatalf\<close>. The list holds
  one element per signal received from \<^verbatim>\<open>hup\<close>.
\<close>

fun main_loop :: "Signer \<Rightarrow> nat \<Rightarrow> cycle list \<Rightarrow> outcome \<times> string action list" where
  "main_loop private d [] =
     (AwaitingHup, [Log ''Waiting for HUP signal - blocking tether initialization''])"
| "main_loop private d (c # cs) =
     (let t0 = [Log ''Waiting for HUP signal - blocking tether initialization'', Recv_hup,
                Log ''Received HUP signal - initializing tether'',
                Log ''opening ttyS0'', OpenFile ''/.tether/ttyS0'']
      in case open_ttyS0 c of
           Some e \<Rightarrow>
             (MainReturned, t0 @ [Log ''failed to open com1 for ssh server: %s'']
                @ replicate d (Close ''/.tether/ttyS0''))
         | None \<Rightarrow>
             (let t1 = t0 @ [Log ''creating raw connection from ttyS0 (fd=%d)'', NewFileConn]
              in case new_file_conn c of
                   Some e \<Rightarrow>
                     (MainReturned,
                      t1 @ [Log ''failed to create raw connection from ttyS0 file handle: %s'']
                        @ replicate (Suc d) (Close ''/.tether/ttyS0''))
                 | None \<Rightarrow>
                     (case id_file (docker_id c) of
                        Inl (Fatalf m) \<Rightarrow>
                          (FatalExit, t1 @ [ReadFile ''/.tether-init/docker-id'', Log m])
                      | Inr i \<Rightarrow>
                          (case serial_HandshakeServer (handshake_err c) of
                             (_, th) \<Rightarrow>
                          (case tether_StartTether (session_err c) i of
                             (_, ts) \<Rightarrow>
                          (case main_loop private (Suc d) cs of
                             (out, t) \<Rightarrow>
                               (out,
                                t1 @ [ReadFile ''/.tether-init/docker-id''] @ th
                                   @ [Log ''creating ssh connection over ttyS0''] @ ts
                                   @ [Close ''/.tether/ttyS0''] @ t)))))))"

text \<open>
  \<^verbatim>\<open>main\<close>. Line 169 sends \<^verbatim>\<open>SIGHUP\<close> to the process itself, so the loop is entered
  with one signal pending: \<open>c0\<close> is the pass that signal starts, \<open>cs\<close> the passes started
  by later signals.
\<close>

definition main :: "startup \<Rightarrow> cycle \<Rightarrow> cycle list \<Rightarrow> outcome \<times> string action list" where
  "main su c0 cs =
     (let t0 = [Go_ListenAndServe ''0.0.0.0:6060'', Mknod ''/.tether/urandom'' (Mkdev 1 9)]
      in case mknod_urandom su of
           Some e \<Rightarrow> (MainReturned, t0 @ [Log ''failed to create urandom access: %s''])
         | None \<Rightarrow>
             (let t1 = t0 @ [Open ''/.tether/urandom'']
              in case open_urandom su of
                   Some e \<Rightarrow> (MainReturned, t1 @ [Log ''failed to open new urandom device''])
                 | None \<Rightarrow>
                     (case privateKey (key_file su) (parse_key su) of
                        (tk, None) \<Rightarrow> (FatalExit, t1 @ tk)
                      | (tk, Some private) \<Rightarrow>
                          (let t2 = t1 @ tk @ [Pipe, Mknod ''/.tether/ttyS0'' (Mkdev 4 64)]
                           in case mknod_ttyS0 su of
                                Some e \<Rightarrow>
                                  (MainReturned, t2 @ [Log ''failed to create device for com1: %s''])
                              | None \<Rightarrow>
                                  (case main_loop private 0 (c0 # cs) of
                                     (out, t) \<Rightarrow>
                                       (out,
                                        t2 @ (if getpid su = 1 then [Go_childReaper] else [])
                                           @ [Notify_SIGHUP, Kill_SIGHUP] @ t))))))"

text \<open>
  A pass in which the device opens, the raw connection is created and the identity file is
  read; and the operations of such a pass, as the spec lists them for a full
  Provisioning-to-Active cycle: device open, handshake, session-layer invocation, close.
\<close>

definition cycle_ok :: "cycle \<Rightarrow> bool" where
  "cycle_ok c = (open_ttyS0 c = None \<and> new_file_conn c = None \<and> docker_id c \<noteq> None)"

definition full_cycle :: "cycle \<Rightarrow> string action list" where
  "full_cycle c =
     [Log ''Waiting for HUP signal - blocking tether initialization'', Recv_hup,
      Log ''Received HUP signal - initializing tether'',
      Log ''opening ttyS0'', OpenFile ''/.tether/ttyS0'',
      Log ''creating raw connection from ttyS0 (fd=%d)'', NewFileConn,
      ReadFile ''/.tether-init/docker-id'', HandshakeServer,
      Log ''creating ssh connection over ttyS0'',
      StartTether (take 64 (the (docker_id c))), Close ''/.tether/ttyS0'']"

text \<open>Whether loading the signing key fails: the file is missing or does not parse.\<close>

definition key_load_fails :: "string option \<Rightarrow> (string \<Rightarrow> Signer option) \<Rightarrow> bool" where
  "key_load_fails rd parse = (case rd of None \<Rightarrow> True | Some b \<Rightarrow> parse b = None)"

subsection \<open>The console-driven proxy (tether.go)\<close>

record GlobalHandler =
  handler_id :: string
  dosconn :: TCPConn
  allowExec :: bool

definition magicPrompt :: string where
  "magicPrompt = ''Exiting DOS ''"

definition backslash :: char where
  "backslash = CHR 0x5C"

definition dquote :: char where
  "dquote = CHR 0x22"

definition type_dockerid :: string where
  "type_dockerid = ''type C:'' @ [backslash] @ ''TETHER'' @ [backslash] @ ''DOCKERID''"

definition autoexec :: string where
  "autoexec = ''C:'' @ [backslash] @ ''AUTOEXEC.BAT''"

definition set_prompt :: string where
  "set_prompt = ''SET PROMPT='' @ magicPrompt @ ''$g''"

text \<open>
  What the collaborators answer during one guest connection: the error of the dial of the
  local daemon, how the handshake ends, the captured output and error of the identity
  command, the error of each started command by its text, and how the session ends.
\<close>

record guest =
  dial_err :: "error option"
  handshake_res :: "error option"
  captured :: "string \<times> error option"
  start_err :: "string \<Rightarrow> error option"
  session_res :: "error option"

text \<open>
  Modelled from the spec: the method \<^verbatim>\<open>discardUntilPrompt\<close> of the handler is not
  under src/. Spec 4.3, \<open>Synchronize()\<close>: discard all output up to and including the
  first occurrence of whatever prompt is active. It returns nothing to the caller and the
  spec gives it no effect on the handler.
\<close>

definition discardUntilPrompt :: "guest \<Rightarrow> GlobalHandler \<Rightarrow> GlobalHandler \<times> GlobalHandler action list" where
  "discardUntilPrompt g h = (h, [DiscardUntilPrompt])"

text \<open>
  Modelled from the spec: the method \<^verbatim>\<open>cmdCombinedOutput\<close> is not under src/.
  Spec 4.3, \<open>RunCommandCapture(text)\<close>: write the command, accumulate bytes until the
  sentinel prompt reappears, return the accumulated bytes. The bytes and the error are the
  guest's answer.
\<close>

definition cmdCombinedOutput ::
  "guest \<Rightarrow> GlobalHandler \<Rightarrow> string \<Rightarrow> GlobalHandler \<times> (string \<times> error option) \<times> GlobalHandler action list" where
  "cmdCombinedOutput g h text = (h, captured g, [CmdCombinedOutput text])"

text \<open>
  Modelled from the spec: the method \<^verbatim>\<open>cmdStart\<close> is not under src/. Spec 4.3,
  \<open>RunCommand(text)\<close>: write the command terminated by a line break; it does not wait for
  or parse a response. The error it returns is the guest's answer.
\<close>

definition cmdStart ::
  "guest \<Rightarrow> GlobalHandler \<Rightarrow> string \<Rightarrow> GlobalHandler \<times> error option \<times> GlobalHandler action list" where
  "cmdStart g h text = (h, start_err g text, [CmdStart text])"

text \<open>
  \<^verbatim>\<open>handleConnectionFromGuest\<close> (lines 116-161). \<open>strip\<close> is
  \<^verbatim>\<open>StripCommandOutput\<close>, which is not under src/ and is taken as a parameter. The
  handshake is a statement (line 135) and the error of the identity command is assigned to
  \<^verbatim>\<open>_\<close> (line 139). The deferred closes run, last registered first, wherever the
  function returns.
\<close>

definition handleConnectionFromGuest ::
  "(string \<Rightarrow> string) \<Rightarrow> TCPConn \<Rightarrow> guest \<Rightarrow> GlobalHandler action list" where
  "handleConnectionFromGuest strip guestConn g =
     (let handler = \<lparr>handler_id = [], dosconn = guestConn, allowExec = True\<rparr>;
          t0 = [Log ''Establishing the connection to docker daemon'', Dial ''localhost:2377'']
      in case dial_err g of
           Some e \<Rightarrow>
             t0 @ [Log ''failed to create loopback connection to daemon: %s'', Close ''guestConn'']
         | None \<Rightarrow>
             (case serial_HandshakeServer (handshake_res g) of
                (_, th) \<Rightarrow>
             (case discardUntilPrompt g handler of
                (handler, td) \<Rightarrow>
             (case cmdCombinedOutput g handler type_dockerid of
                (handler, (output, _), tc) \<Rightarrow>
             (let handler = handler\<lparr>handler_id := strip output\<rparr>;
                  t1 = t0 @ [Log ''Handshaking with daemon''] @ th @ td @ tc
                          @ [Log (''Docker ID passed back from container = '' @ [dquote] @ ''%s'' @ [dquote])]
              in case cmdStart g handler autoexec of
                   (handler, Some e, ta) \<Rightarrow>
                     t1 @ ta @ [Log (''error running '' @ autoexec @ '': %s''),
                                Close ''dconn'', Close ''guestConn'']
                 | (handler, None, ta) \<Rightarrow>
                     (case cmdStart g handler set_prompt of
                        (handler, Some e, tp) \<Rightarrow>
                          t1 @ ta @ tp @ [Log ''error setting initial prompt: %s'',
                                          Close ''dconn'', Close ''guestConn'']
                      | (handler, None, tp) \<Rightarrow>
                          (case tether_StartTether (session_res g) handler of
                             (_, ts) \<Rightarrow>
                               t1 @ ta @ tp
                                 @ [Log ''Initiating ssh command logic with handler.id = %s'']
                                 @ ts @ [Close ''dconn'', Close ''guestConn''])))))))"

text \<open>What the operating system answers to the proxy's \<^verbatim>\<open>main\<close> before its loop.\<close>

record pstartup =
  p_key_file :: "string option"
  p_parse_key :: "string \<Rightarrow> Signer option"
  externalIP_err :: "error option"
  resolve_err :: "error option"
  listen_err :: "error option"

text \<open>
  One answer of \<^verbatim>\<open>ln.AcceptTCP()\<close>: an error, or a connection and its guest. (After a
  failed \<^verbatim>\<open>ListenTCP\<close> the listener is nil and every answer is an error.)
\<close>

datatype accept = AcceptError error | Accepted TCPConn guest

text \<open>
  The listen loop (lines 192-200): the operations of \<^verbatim>\<open>main\<close> and, for each handler
  task it starts, that task's own operations. A handler runs as a task of its own, so
  nothing it does returns to the loop.
\<close>

fun listen_loop ::
  "(string \<Rightarrow> string) \<Rightarrow> accept list \<Rightarrow> GlobalHandler action list \<times> GlobalHandler action list list" where
  "listen_loop strip [] = ([AcceptTCP], [])"
| "listen_loop strip (AcceptError e # as) =
     (case listen_loop strip as of (t, hs) \<Rightarrow> (AcceptTCP # Log ''accept error'' # t, hs))"
| "listen_loop strip (Accepted conn g # as) =
     (case listen_loop strip as of
        (t, hs) \<Rightarrow>
          (AcceptTCP # Log ''handing guest connection off to handler thread''
             # Go_handleConnectionFromGuest conn # t,
           handleConnectionFromGuest strip conn g # hs))"

text \<open>The connections accepted among the answers, and the handler tasks a trace starts.\<close>

fun accepted :: "accept list \<Rightarrow> (TCPConn \<times> guest) list" where
  "accepted [] = []"
| "accepted (AcceptError e # as) = accepted as"
| "accepted (Accepted conn g # as) = (conn, g) # accepted as"

fun spawned :: "'h action list \<Rightarrow> TCPConn list" where
  "spawned [] = []"
| "spawned (Go_handleConnectionFromGuest conn # as) = conn # spawned as"
| "spawned (a # as) = spawned as"

text \<open>
  \<^verbatim>\<open>main\<close> of the proxy (lines 163-201). The three errors after the key are logged and
  the function goes on.
\<close>

definition proxy_main ::
  "(string \<Rightarrow> string) \<Rightarrow> pstartup \<Rightarrow> accept list
     \<Rightarrow> outcome \<times> GlobalHandler action list \<times> GlobalHandler action list list" where
  "proxy_main strip ps accs =
     (case privateKey (p_key_file ps) (p_parse_key ps) of
        (tk, None) \<Rightarrow> (FatalExit, tk, [])
      | (tk, Some private) \<Rightarrow>
          (case listen_loop strip accs of
             (t, hs) \<Rightarrow>
               (InAcceptTCP,
                tk @ [ExternalIP]
                   @ (if externalIP_err ps = None then [] else [Log ''unable to get external IP address: %s''])
                   @ [ResolveTCPAddr]
                   @ (if resolve_err ps = None then [] else [Log ''unable to construct TCP address to listen: %s''])
                   @ [Log ''Listening for guest connections'', ListenTCP]
                   @ (if listen_err ps = None then [] else [Log ''unable listen %s: %s''])
                   @ t,
                hs)))"

subsection \<open>Example answers\<close>

definition good_startup :: startup where
  "good_startup =
     \<lparr>mknod_urandom = None, open_urandom = None, key_file = Some ''KEY'',
      parse_key = (\<lambda>b. Some (Signer b)), mknod_ttyS0 = None, getpid = 1\<rparr>"

definition good_cycle :: cycle where
  "good_cycle =
     \<lparr>open_ttyS0 = None, new_file_conn = None, docker_id = Some ''C3PO0042'',
      handshake_err = None, session_err = None\<rparr>"

definition good_guest :: guest where
  "good_guest =
     \<lparr>dial_err = None, handshake_res = None, captured = (''C3PO0042'', None),
      start_err = (\<lambda>t. None), session_res = None\<rparr>"

definition handshake_fails_guest :: guest where
  "handshake_fails_guest = good_guest\<lparr>handshake_res := Some (Err ''handshake timed out'')\<rparr>"

definition child :: "int \<Rightarrow> WaitStatus \<Rightarrow> wait4" where
  "child p s = \<lparr>w_pid = p, w_err = None, w_status = s\<rparr>"

definition no_child :: wait4 where
  "no_child = \<lparr>w_pid = -1, w_err = Some ECHILD, w_status = 0\<rparr>"

definition good_proxy :: pstartup where
  "good_proxy =
     \<lparr>p_key_file = Some ''KEY'', p_parse_key = (\<lambda>b. Some (Signer b)),
      externalIP_err = None, resolve_err = None, listen_err = None\<rparr>"

definition no_key_proxy :: pstartup where
  "no_key_proxy =
     \<lparr>p_key_file = Some ''garbage'', p_parse_key = (\<lambda>b. None),
      externalIP_err = None, resolve_err = None, listen_err = None\<rparr>"

definition good_handler :: GlobalHandler where
  "good_handler = \<lparr>handler_id = ''C3PO0042'', dosconn = 9, allowExec = True\<rparr>"

definition eio :: error where
  "eio = Errno 5"

text \<open>An answer of \<^verbatim>\<open>Wait4\<close> with an error that is not \<^verbatim>\<open>ECHILD\<close> (\<^verbatim>\<open>EINTR\<close>).\<close>

definition eintr :: wait4 where
  "eintr = \<lparr>w_pid = -1, w_err = Some (Errno 4), w_status = 0\<rparr>"

text \<open>
  Guests whose connection fails at one stage: the dial, the startup script, the prompt
  command, the identity capture (and, above, the handshake).
\<close>

definition refused_guest :: guest where
  "refused_guest = good_guest\<lparr>dial_err := Some (Err ''connection refused'')\<rparr>"

definition autoexec_fails_guest :: guest where
  "autoexec_fails_guest =
     good_guest\<lparr>start_err := (\<lambda>t. if t = autoexec then Some (Err ''write failed'') else None)\<rparr>"

definition prompt_fails_guest :: guest where
  "prompt_fails_guest =
     good_guest\<lparr>start_err := (\<lambda>t. if t = set_prompt then Some (Err ''write failed'') else None)\<rparr>"

definition capture_fails_guest :: guest where
  "capture_fails_guest = good_guest\<lparr>captured := ([], Some (Err ''read failed''))\<rparr>"

section \<open>Basic facts\<close>

subsection \<open>The reaper\<close>

lemma reap_step_table: "fst (snd (reap_step tbl bufs r xs)) = tbl"
  by (simp add: reap_step_def split: option.splits prod.splits bool.splits)

lemma drain_table: "fst (snd (drain tbl bufs xs)) = tbl"
proof (induction tbl bufs xs rule: drain.induct)
  case (1 tbl bufs)
  show ?case by simp
next
  case (2 tbl bufs c xs)
  then show ?case by simp
next
  case (3 tbl bufs r xs)
  obtain c b es xs' where st: "reap_step tbl bufs r xs = (c, tbl, b, es, xs')"
    using reap_step_table [of tbl bufs r xs] by (cases "reap_step tbl bufs r xs") auto
  show ?case
  proof (cases c)
    case Continue
    then show ?thesis
      using "3.IH" [of c "(tbl, b, es, xs')" tbl "(b, es, xs')" b "(es, xs')" es xs'] st
      by (simp add: split_beta)
  qed (simp_all add: st)
qed

lemma childReaper_table: "fst (snd (childReaper n tbl bufs xs)) = tbl"
proof (induction n arbitrary: bufs xs)
  case 0
  show ?case by simp
next
  case (Suc n)
  obtain c b es rest where dr: "drain tbl bufs xs = (c, tbl, b, es, rest)"
    using drain_table [of tbl bufs xs] by (cases "drain tbl bufs xs") auto
  show ?case using Suc.IH [of b rest] dr by (cases c) (simp_all add: split_beta)
qed

lemma childReaper_running:
  "fst (childReaper n tbl bufs xs) = Blocked_on_incoming
   \<or> fst (childReaper n tbl bufs xs) = In_Wait4_loop
   \<or> fst (childReaper n tbl bufs xs) = Blocked_in_send"
proof (induction n arbitrary: tbl bufs xs)
  case 0
  show ?case by simp
next
  case (Suc n)
  obtain c t b es rest where dr: "drain tbl bufs xs = (c, t, b, es, rest)"
    by (cases "drain tbl bufs xs") auto
  obtain s t' b' es' where cr: "childReaper n t b rest = (s, t', b', es')"
    by (cases "childReaper n t b rest") auto
  show ?case using Suc.IH [of t b rest] dr cr by (cases c) simp_all
qed

text \<open>
  Where no send is made (every answer before the first ``no more children'' is an error
  or the exit of a pid that is not in the table), one notification drains them all.
\<close>

lemma drain_no_sends:
  assumes "\<forall>r\<in>set rs. \<not> no_more r \<and> (w_err r = None \<longrightarrow> tbl (w_pid r) = None)"
    and "no_more stop"
  shows "\<exists>es. drain tbl bufs (map Answer rs @ Answer stop # rest) = (Break, tbl, bufs, es, rest)
           \<and> length (filter (\<lambda>e. e = Wait4) es) = length rs + 1 \<and> sends es = []"
  using assms(1)
proof (induction rs)
  case Nil
  show ?case using assms(2) by (simp add: reap_step_def no_more_def)
next
  case (Cons r rs)
  then obtain es where
      es: "drain tbl bufs (map Answer rs @ Answer stop # rest) = (Break, tbl, bufs, es, rest)"
      "length (filter (\<lambda>e. e = Wait4) es) = length rs + 1" "sends es = []"
    by auto
  have "\<not> no_more r" and "w_err r = None \<longrightarrow> tbl (w_pid r) = None"
    using Cons.prems by simp_all
  then show ?case using es
    by (cases "w_err r") (auto simp: reap_step_def no_more_def)
qed

subsection \<open>The direct agent\<close>

lemma id_file_Some: "id_file (Some i) = Inr (take 64 i)"
  by (simp add: id_file_def)

lemma main_loop_ok_Cons:
  "cycle_ok c \<Longrightarrow>
   main_loop private d (c # cs) =
     (case main_loop private (Suc d) cs of (out, t) \<Rightarrow> (out, full_cycle c @ t))"
  by (auto simp: cycle_ok_def full_cycle_def id_file_Some serial_HandshakeServer_def
      tether_StartTether_def split: prod.splits)

lemma main_loop_ok_prefix:
  "\<forall>c\<in>set pre. cycle_ok c \<Longrightarrow>
   main_loop private d (pre @ cs) =
     (case main_loop private (d + length pre) cs of
        (out, t) \<Rightarrow> (out, concat (map full_cycle pre) @ t))"
proof (induction pre arbitrary: d)
  case Nil
  show ?case by simp
next
  case (Cons c pre)
  have ok: "cycle_ok c" using Cons.prems by simp
  have rest: "\<forall>c\<in>set pre. cycle_ok c" using Cons.prems by simp
  show ?case
    using main_loop_ok_Cons [OF ok, of "private" d "pre @ cs"] Cons.IH [OF rest, of "Suc d"]
    by (simp split: prod.splits)
qed

lemma main_loop_open_fails:
  "open_ttyS0 c = Some e \<Longrightarrow>
   main_loop private d (c # cs) =
     (MainReturned,
      [Log ''Waiting for HUP signal - blocking tether initialization'', Recv_hup,
       Log ''Received HUP signal - initializing tether'',
       Log ''opening ttyS0'', OpenFile ''/.tether/ttyS0'',
       Log ''failed to open com1 for ssh server: %s'']
      @ replicate d (Close ''/.tether/ttyS0''))"
  by simp

lemma main_loop_no_reaper: "count_list (snd (main_loop private d cs)) Go_childReaper = 0"
proof (induction cs arbitrary: d)
  case Nil
  show ?case by simp
next
  case (Cons c cs)
  show ?case using Cons.IH [of "Suc d"]
    by (auto simp: Let_def serial_HandshakeServer_def tether_StartTether_def
        split: option.splits sum.splits fatal.splits prod.splits)
qed

lemma main_loop_no_reaper_run:
  "main_loop k d cs = (out, t) \<Longrightarrow> count_list t Go_childReaper = 0"
  using main_loop_no_reaper [of k d cs] by simp

subsection \<open>The proxy\<close>

lemma autoexec_neq_set_prompt: "autoexec \<noteq> set_prompt"
  by (simp add: autoexec_def set_prompt_def)

lemma commands_append: "commands (xs @ ys) = commands xs @ commands ys"
  by (induction xs rule: commands.induct) simp_all

lemma commands_mem: "s \<in> set (commands xs) \<longleftrightarrow> CmdStart s \<in> set xs"
  by (induction xs rule: commands.induct) auto

lemma handler_trace:
  "handleConnectionFromGuest strip c g =
     (case dial_err g of
        Some e \<Rightarrow>
          [Log ''Establishing the connection to docker daemon'', Dial ''localhost:2377'',
           Log ''failed to create loopback connection to daemon: %s'', Close ''guestConn'']
      | None \<Rightarrow>
          [Log ''Establishing the connection to docker daemon'', Dial ''localhost:2377'',
           Log ''Handshaking with daemon'', HandshakeServer, DiscardUntilPrompt,
           CmdCombinedOutput type_dockerid,
           Log (''Docker ID passed back from container = '' @ [dquote] @ ''%s'' @ [dquote]),
           CmdStart autoexec]
          @ (case start_err g autoexec of
               Some e \<Rightarrow>
                 [Log (''error running '' @ autoexec @ '': %s''), Close ''dconn'', Close ''guestConn'']
             | None \<Rightarrow>
                 CmdStart set_prompt
                 # (case start_err g set_prompt of
                      Some e \<Rightarrow>
                        [Log ''error setting initial prompt: %s'', Close ''dconn'', Close ''guestConn'']
                    | None \<Rightarrow>
                        [Log ''Initiating ssh command logic with handler.id = %s'',
                         StartTether \<lparr>handler_id = strip (fst (captured g)), dosconn = c,
                                       allowExec = True\<rparr>,
                         Close ''dconn'', Close ''guestConn''])))"
  by (simp add: handleConnectionFromGuest_def serial_HandshakeServer_def discardUntilPrompt_def
      cmdCombinedOutput_def cmdStart_def tether_StartTether_def Let_def
      split: option.splits prod.splits)

lemma handler_commands:
  "commands (handleConnectionFromGuest strip c g) = []
   \<or> commands (handleConnectionFromGuest strip c g) = [autoexec]
   \<or> commands (handleConnectionFromGuest strip c g) = [autoexec, set_prompt]"
  by (simp add: handler_trace split: option.splits)

lemma good_guest_trace:
  "handleConnectionFromGuest (\<lambda>s. s) 9 good_guest =
     [Log ''Establishing the connection to docker daemon'', Dial ''localhost:2377'',
      Log ''Handshaking with daemon'', HandshakeServer, DiscardUntilPrompt,
      CmdCombinedOutput type_dockerid,
      Log (''Docker ID passed back from container = '' @ [dquote] @ ''%s'' @ [dquote]),
      CmdStart autoexec]
     @ CmdStart set_prompt
     # [Log ''Initiating ssh command logic with handler.id = %s'', StartTether good_handler,
        Close ''dconn'', Close ''guestConn'']"
  by (simp add: handler_trace good_guest_def good_handler_def)

lemma handler_started:
  "started (handleConnectionFromGuest strip c g) =
     (if dial_err g = None \<and> start_err g autoexec = None \<and> start_err g set_prompt = None
      then [\<lparr>handler_id = strip (fst (captured g)), dosconn = c, allowExec = True\<rparr>]
      else [])"
  by (simp add: handler_trace split: option.splits)

lemma listen_loop_handlers:
  "snd (listen_loop strip accs) =
     map (\<lambda>(conn, g). handleConnectionFromGuest strip conn g) (accepted accs)"
  by (induction accs rule: accepted.induct) (simp_all add: split_beta)

lemma listen_loop_spawned:
  "spawned (fst (listen_loop strip accs)) = map fst (accepted accs)"
  by (induction accs rule: accepted.induct) (simp_all add: split_beta)

lemma listen_loop_nonempty: "fst (listen_loop strip accs) \<noteq> []"
  by (induction accs rule: accepted.induct) (simp_all add: split_beta)

lemma listen_loop_last: "last (fst (listen_loop strip accs)) = AcceptTCP"
  by (induction accs rule: accepted.induct) (simp_all add: split_beta listen_loop_nonempty)

section \<open>The reaper\<close>

text \<open>
  C1. For a pid registered in the table and reaped, the claim asks that the status is
  delivered once and the entry removed, so that a later process with the same pid is not
  delivered to the old registration. \<open>childReaper\<close> never writes the table
  (\<open>childReaper_table\<close>). Evaluated here: pid 7 is registered with channel 3; it is
  reaped on a first notification and the spawner receives its status; a second process
  with pid 7 is reaped on a second notification. The entry is still there after both, and
  both statuses are sent on channel 3.
\<close>

theorem childReaper_keeps_entry:
  "(case childReaper 2 (Map.empty(7 \<mapsto> 3)) idle
           [Answer (child 7 0), Answer no_child, Receive 3, Answer (child 7 256), Answer no_child] of
      (s, tbl, bufs, es) \<Rightarrow>
        s = Blocked_on_incoming \<and> tbl 7 = Some 3 \<and> sends es = [(3, 0), (3, 256)])"
  by (simp add: numeral_2_eq_2 reap_step_def child_def no_child_def ECHILD_def idle_def
      can_send_def do_send_def capacity_def receive_def)

text \<open>
  C4. The claim asks that one notification drains every terminated child. The loop does
  call \<^verbatim>\<open>Wait4\<close> until ``no more children'' as long as its sends go through
  (\<open>drain_no_sends\<close> for the answers that need none), but the send of line 113 can block,
  because the entry of a reaped pid stays in the table (C1). Evaluated here: after the two
  deliveries of C1 the second status sits in channel 3 with nobody to receive it; on a
  third notification pid 7, used once more, and pid 8 have exited together. The reaper is
  stuck in the send for pid 7 after five calls of \<^verbatim>\<open>Wait4\<close>; the answers for pid 8 and
  the final \<^verbatim>\<open>ECHILD\<close> are never asked for.
\<close>

theorem childReaper_blocks_in_send:
  "(case childReaper 3 (Map.empty(7 \<mapsto> 3)) idle
           [Answer (child 7 0), Answer no_child, Receive 3,
            Answer (child 7 256), Answer no_child,
            Answer (child 7 512), Answer (child 8 0), Answer no_child] of
      (s, tbl, bufs, es) \<Rightarrow>
        s = Blocked_in_send \<and> sends es = [(3, 0), (3, 256)]
        \<and> length (filter (\<lambda>e. e = Wait4) es) = 5)
   \<and> drain (Map.empty(7 \<mapsto> 3)) (idle(3 := \<lparr>buffered = [256], waiting = 0\<rparr>))
        [Answer (child 7 512), Answer (child 8 0), Answer no_child] =
      (Blocked, Map.empty(7 \<mapsto> 3), idle(3 := \<lparr>buffered = [256], waiting = 0\<rparr>),
       [RLog ''Reaping child processes'', Wait4, RLog ''Reaped process %d, return code: %d''],
       [Answer (child 8 0), Answer no_child])"
  by (simp add: numeral_3_eq_3 reap_step_def child_def no_child_def ECHILD_def idle_def
      can_send_def do_send_def capacity_def receive_def)

text \<open>
  C3 (as amended). The reaper task is started behind the test \<^verbatim>\<open>pid == 1\<close> of line
  162, after the devices are made and the key is loaded: a run starts one reaper task
  exactly when it passes those steps as process 1, and none otherwise. The reaper itself
  has no way out: after any number of notifications and whatever happens around it, it is
  blocked on the next notification, inside the inner loop or stuck in a send, never
  returned. An answer
  with an error other than \<^verbatim>\<open>ECHILD\<close> (and a pid other than 0) is logged and the loop
  goes on with the next call of \<^verbatim>\<open>Wait4\<close>.
\<close>

theorem reaper_started_once_and_runs:
  "count_list (snd (main su c0 cs)) Go_childReaper =
     (if mknod_urandom su = None \<and> open_urandom su = None
          \<and> \<not> key_load_fails (key_file su) (parse_key su)
          \<and> mknod_ttyS0 su = None \<and> getpid su = 1
      then 1 else 0)
   \<and> fst (childReaper n tbl bufs xs) \<noteq> Reaper_returned
   \<and> (\<not> no_more r \<and> w_err r \<noteq> None \<longrightarrow>
        drain tbl bufs (Answer r # xs) =
          (case drain tbl bufs xs of
             (c, t, b, es, rest) \<Rightarrow>
               (c, t, b,
                [RLog ''Reaping child processes'', Wait4, RLog ''Wait4 got error: %v''] @ es,
                rest)))"
proof (intro conjI)
  show "count_list (snd (main su c0 cs)) Go_childReaper =
     (if mknod_urandom su = None \<and> open_urandom su = None
          \<and> \<not> key_load_fails (key_file su) (parse_key su)
          \<and> mknod_ttyS0 su = None \<and> getpid su = 1
      then 1 else 0)"
    by (auto simp add: main_def privateKey_def key_load_fails_def Let_def simp del: main_loop.simps
        split: option.splits prod.splits dest: main_loop_no_reaper_run)
next
  show "fst (childReaper n tbl bufs xs) \<noteq> Reaper_returned"
    using childReaper_running [of n tbl bufs xs] by auto
next
  show "\<not> no_more r \<and> w_err r \<noteq> None \<longrightarrow>
        drain tbl bufs (Answer r # xs) =
          (case drain tbl bufs xs of
             (c, t, b, es, rest) \<Rightarrow>
               (c, t, b,
                [RLog ''Reaping child processes'', Wait4, RLog ''Wait4 got error: %v''] @ es,
                rest))"
    by (auto simp: reap_step_def no_more_def split: prod.splits)
qed

text \<open>Process 1 with a good startup; \<^verbatim>\<open>Wait4\<close> answers \<^verbatim>\<open>EINTR\<close>, then \<^verbatim>\<open>ECHILD\<close>.\<close>

theorem reaper_started_once_and_runs_witness:
  "count_list (snd (main good_startup good_cycle [good_cycle])) Go_childReaper = 1
   \<and> fst (childReaper 1 Map.empty idle [Answer no_child]) \<noteq> Reaper_returned
   \<and> \<not> no_more eintr \<and> w_err eintr \<noteq> None
   \<and> drain Map.empty idle [Answer eintr, Answer no_child] =
        (Break, Map.empty, idle,
         [RLog ''Reaping child processes'', Wait4, RLog ''Wait4 got error: %v'',
          RLog ''Reaping child processes'', Wait4, RLog ''No more child processes to reap''], [])"
proof -
  have h: "\<not> no_more eintr \<and> w_err eintr \<noteq> None"
    by (simp add: no_more_def eintr_def ECHILD_def)
  have s: "mknod_urandom good_startup = None \<and> open_urandom good_startup = None
          \<and> \<not> key_load_fails (key_file good_startup) (parse_key good_startup)
          \<and> mknod_ttyS0 good_startup = None \<and> getpid good_startup = 1"
    by (simp add: good_startup_def key_load_fails_def)
  have d: "drain Map.empty idle [Answer no_child] =
        (Break, Map.empty, idle,
         [RLog ''Reaping child processes'', Wait4, RLog ''No more child processes to reap''], [])"
    by (simp add: reap_step_def no_child_def)
  show ?thesis
    using reaper_started_once_and_runs [of good_startup good_cycle "[good_cycle]" 1 Map.empty
        idle "[Answer no_child]" eintr] h s d
    by (simp del: drain.simps main_loop.simps childReaper.simps)
qed

text \<open>
  The claim as stated, one reaper task in every run, fails for a process that is not
  process 1: the run reaches the wait for the signal without a reaper.
\<close>

theorem reaper_not_started_counterexample:
  "fst (main (good_startup\<lparr>getpid := 2\<rparr>) good_cycle []) = AwaitingHup
   \<and> count_list (snd (main (good_startup\<lparr>getpid := 2\<rparr>) good_cycle [])) Go_childReaper = 0"
  by (simp add: main_def good_startup_def good_cycle_def privateKey_def id_file_def
      serial_HandshakeServer_def tether_StartTether_def)

section \<open>The lifecycle loop of the direct agent\<close>

text \<open>
  C6 (as amended). The loop is re-armable: as long as the device opens, the raw connection
  is created and the identity file is read in each pass, every signal received produces a
  full cycle (device open, handshake, session-layer invocation, close), however the
  handshake and the session ended, and after the last one the loop is blocked waiting for
  the next signal. Two consecutive signals are the list of two passes.
\<close>

theorem main_loop_rearmable:
  assumes "\<forall>c\<in>set cs. cycle_ok c"
  shows "main_loop private d cs =
           (AwaitingHup,
            concat (map full_cycle cs)
              @ [Log ''Waiting for HUP signal - blocking tether initialization''])"
  using main_loop_ok_prefix [OF assms, of "private" d "[]"] by simp

text \<open>Two signals, each answered by a good pass: two sessions are started.\<close>

theorem main_loop_rearmable_witness:
  "cycle_ok good_cycle \<and>
   main_loop (Signer ''KEY'') 0 [good_cycle, good_cycle] =
     (AwaitingHup,
      full_cycle good_cycle @ full_cycle good_cycle
        @ [Log ''Waiting for HUP signal - blocking tether initialization''])
   \<and> started (full_cycle good_cycle @ full_cycle good_cycle) = [''C3PO0042'', ''C3PO0042'']"
proof -
  have h: "\<forall>c\<in>set [good_cycle, good_cycle]. cycle_ok c"
    by (simp add: cycle_ok_def good_cycle_def)
  have s: "started (full_cycle good_cycle @ full_cycle good_cycle) = [''C3PO0042'', ''C3PO0042'']"
    by (simp add: full_cycle_def good_cycle_def)
  show ?thesis
    using h s main_loop_rearmable [OF h, of "Signer ''KEY''" 0] by (simp del: main_loop.simps)
qed

text \<open>
  The claim as stated, a full cycle for each of two consecutive signals once a session has
  completed between them, fails when the device does not open at the second signal: the
  first signal gives a full cycle and a session, the second finds the open failing, and
  \<^verbatim>\<open>main\<close> returns with that one session.
\<close>

theorem second_signal_counterexample:
  "main_loop (Signer ''KEY'') 0 [good_cycle, good_cycle\<lparr>open_ttyS0 := Some eio\<rparr>] =
     (MainReturned,
      full_cycle good_cycle
        @ [Log ''Waiting for HUP signal - blocking tether initialization'', Recv_hup,
           Log ''Received HUP signal - initializing tether'',
           Log ''opening ttyS0'', OpenFile ''/.tether/ttyS0'',
           Log ''failed to open com1 for ssh server: %s'',
           Close ''/.tether/ttyS0''])
   \<and> started (snd (main_loop (Signer ''KEY'') 0
                      [good_cycle, good_cycle\<lparr>open_ttyS0 := Some eio\<rparr>])) = [''C3PO0042'']"
  by (simp add: good_cycle_def full_cycle_def id_file_def serial_HandshakeServer_def
      tether_StartTether_def)

text \<open>
  C2 (as amended). A failure to create the device node of the control channel, or to open
  it after a signal, is logged and \<^verbatim>\<open>main\<close> returns: the process ends there. No
  signal is received after a failed \<^verbatim>\<open>Mknod\<close>; after a failed open, the passes of
  later signals (\<open>cs\<close>) are never run, whatever came before (\<open>pre\<close>).
\<close>

theorem device_failure_ends_process:
  "(mknod_urandom su = None \<and> open_urandom su = None
      \<and> \<not> key_load_fails (key_file su) (parse_key su) \<and> mknod_ttyS0 su = Some e \<longrightarrow>
      fst (main su c0 cs) = MainReturned
      \<and> last (snd (main su c0 cs)) = Log ''failed to create device for com1: %s''
      \<and> count_list (snd (main su c0 cs)) Recv_hup = 0)
   \<and> ((\<forall>c\<in>set pre. cycle_ok c) \<and> open_ttyS0 c = Some e' \<longrightarrow>
      main_loop k d (pre @ c # cs) =
        (MainReturned,
         concat (map full_cycle pre)
           @ [Log ''Waiting for HUP signal - blocking tether initialization'', Recv_hup,
              Log ''Received HUP signal - initializing tether'',
              Log ''opening ttyS0'', OpenFile ''/.tether/ttyS0'',
              Log ''failed to open com1 for ssh server: %s'']
           @ replicate (d + length pre) (Close ''/.tether/ttyS0'')))"
proof (intro conjI impI)
  assume a: "mknod_urandom su = None \<and> open_urandom su = None
      \<and> \<not> key_load_fails (key_file su) (parse_key su) \<and> mknod_ttyS0 su = Some e"
  then obtain b key where k: "key_file su = Some b" "parse_key su b = Some key"
    by (auto simp: key_load_fails_def split: option.splits)
  have m: "main su c0 cs =
     (MainReturned,
      [Go_ListenAndServe ''0.0.0.0:6060'', Mknod ''/.tether/urandom'' (Mkdev 1 9),
       Open ''/.tether/urandom'', ReadFile ''tetherKey'', ParsePrivateKey, Pipe,
       Mknod ''/.tether/ttyS0'' (Mkdev 4 64), Log ''failed to create device for com1: %s''])"
    using a k by (simp add: main_def privateKey_def del: main_loop.simps)
  show "fst (main su c0 cs) = MainReturned" by (simp add: m)
  show "last (snd (main su c0 cs)) = Log ''failed to create device for com1: %s''" by (simp add: m)
  show "count_list (snd (main su c0 cs)) Recv_hup = 0" by (simp add: m)
next
  assume a: "(\<forall>c\<in>set pre. cycle_ok c) \<and> open_ttyS0 c = Some e'"
  then have p: "\<forall>c\<in>set pre. cycle_ok c" and o: "open_ttyS0 c = Some e'" by simp_all
  show "main_loop k d (pre @ c # cs) =
        (MainReturned,
         concat (map full_cycle pre)
           @ [Log ''Waiting for HUP signal - blocking tether initialization'', Recv_hup,
              Log ''Received HUP signal - initializing tether'',
              Log ''opening ttyS0'', OpenFile ''/.tether/ttyS0'',
              Log ''failed to open com1 for ssh server: %s'']
           @ replicate (d + length pre) (Close ''/.tether/ttyS0''))"
    using main_loop_ok_prefix [OF p, of k d "c # cs"]
      main_loop_open_fails [OF o, of k "d + length pre" cs]
    by (simp del: main_loop.simps)
qed

text \<open>A failing \<^verbatim>\<open>Mknod\<close>; and a good pass followed by a pass whose open fails.\<close>

theorem device_failure_ends_process_witness:
  "fst (main (good_startup\<lparr>mknod_ttyS0 := Some eio\<rparr>) good_cycle [good_cycle]) = MainReturned
   \<and> last (snd (main (good_startup\<lparr>mknod_ttyS0 := Some eio\<rparr>) good_cycle [good_cycle]))
       = Log ''failed to create device for com1: %s''
   \<and> count_list (snd (main (good_startup\<lparr>mknod_ttyS0 := Some eio\<rparr>) good_cycle [good_cycle])) Recv_hup = 0
   \<and> main_loop (Signer ''KEY'') 0 ([good_cycle] @ good_cycle\<lparr>open_ttyS0 := Some eio\<rparr> # [good_cycle]) =
        (MainReturned,
         full_cycle good_cycle
           @ [Log ''Waiting for HUP signal - blocking tether initialization'', Recv_hup,
              Log ''Received HUP signal - initializing tether'',
              Log ''opening ttyS0'', OpenFile ''/.tether/ttyS0'',
              Log ''failed to open com1 for ssh server: %s'',
              Close ''/.tether/ttyS0''])"
proof -
  have h1: "mknod_urandom (good_startup\<lparr>mknod_ttyS0 := Some eio\<rparr>) = None
      \<and> open_urandom (good_startup\<lparr>mknod_ttyS0 := Some eio\<rparr>) = None
      \<and> \<not> key_load_fails (key_file (good_startup\<lparr>mknod_ttyS0 := Some eio\<rparr>))
            (parse_key (good_startup\<lparr>mknod_ttyS0 := Some eio\<rparr>))
      \<and> mknod_ttyS0 (good_startup\<lparr>mknod_ttyS0 := Some eio\<rparr>) = Some eio"
    by (simp add: good_startup_def key_load_fails_def)
  have h2: "(\<forall>c\<in>set [good_cycle]. cycle_ok c)
      \<and> open_ttyS0 (good_cycle\<lparr>open_ttyS0 := Some eio\<rparr>) = Some eio"
    by (simp add: cycle_ok_def good_cycle_def)
  show ?thesis
    using device_failure_ends_process [of "good_startup\<lparr>mknod_ttyS0 := Some eio\<rparr>" eio
        good_cycle "[good_cycle]" "[good_cycle]" "good_cycle\<lparr>open_ttyS0 := Some eio\<rparr>" eio
        "Signer ''KEY''" 0] h1 h2
    by (simp del: main_loop.simps)
qed

text \<open>
  The claim as stated, back to Idle and a retry on the next signal, fails: the open fails in
  the first pass, a second signal is there to be received, and the run has returned from
  \<^verbatim>\<open>main\<close> having received one signal only.
\<close>

theorem device_open_failure_counterexample:
  "fst (main good_startup (good_cycle\<lparr>open_ttyS0 := Some eio\<rparr>) [good_cycle]) = MainReturned
   \<and> count_list (snd (main good_startup (good_cycle\<lparr>open_ttyS0 := Some eio\<rparr>) [good_cycle])) Recv_hup = 1"
  by (simp add: main_def good_startup_def good_cycle_def privateKey_def)

section \<open>The signing key\<close>

text \<open>
  C7 (as amended). When the key file is missing or does not parse, the process exits at the
  key load. In the direct agent that is before the device node of the control channel is
  created or opened and before the reaper task is started; the debug listener is started
  and the entropy device is created and opened before the key is loaded. In the proxy it
  is before the listener is started and before any connection is accepted.
\<close>

theorem key_failure_aborts:
  "(mknod_urandom su = None \<and> open_urandom su = None
      \<and> key_load_fails (key_file su) (parse_key su) \<longrightarrow>
      main su c0 cs =
        (FatalExit,
         [Go_ListenAndServe ''0.0.0.0:6060'', Mknod ''/.tether/urandom'' (Mkdev 1 9),
          Open ''/.tether/urandom''] @ fst (privateKey (key_file su) (parse_key su)))
      \<and> Mknod ''/.tether/ttyS0'' (Mkdev 4 64) \<notin> set (snd (main su c0 cs))
      \<and> OpenFile ''/.tether/ttyS0'' \<notin> set (snd (main su c0 cs))
      \<and> Go_childReaper \<notin> set (snd (main su c0 cs)))
   \<and> (key_load_fails (p_key_file ps) (p_parse_key ps) \<longrightarrow>
      proxy_main strip ps accs =
        (FatalExit, fst (privateKey (p_key_file ps) (p_parse_key ps)), [])
      \<and> ListenTCP \<notin> set (fst (snd (proxy_main strip ps accs)))
      \<and> AcceptTCP \<notin> set (fst (snd (proxy_main strip ps accs))))"
  by (auto simp: main_def proxy_main_def privateKey_def key_load_fails_def
      simp del: main_loop.simps split: option.splits)

text \<open>The direct agent without a key file; the proxy with a key that does not parse.\<close>

theorem key_failure_aborts_witness:
  "main (good_startup\<lparr>key_file := None\<rparr>) good_cycle [good_cycle] =
        (FatalExit,
         [Go_ListenAndServe ''0.0.0.0:6060'', Mknod ''/.tether/urandom'' (Mkdev 1 9),
          Open ''/.tether/urandom'', ReadFile ''tetherKey'', Log ''failed to load private key: %v''])
   \<and> Go_childReaper \<notin> set (snd (main (good_startup\<lparr>key_file := None\<rparr>) good_cycle [good_cycle]))
   \<and> proxy_main (\<lambda>s. s) no_key_proxy [Accepted 9 good_guest] =
        (FatalExit, [ReadFile ''tetherKey'', ParsePrivateKey, Log ''failed to parse private key: %v''], [])"
proof -
  have h1: "mknod_urandom (good_startup\<lparr>key_file := None\<rparr>) = None
      \<and> open_urandom (good_startup\<lparr>key_file := None\<rparr>) = None
      \<and> key_load_fails (key_file (good_startup\<lparr>key_file := None\<rparr>))
            (parse_key (good_startup\<lparr>key_file := None\<rparr>))"
    by (simp add: good_startup_def key_load_fails_def)
  have h2: "key_load_fails (p_key_file no_key_proxy) (p_parse_key no_key_proxy)"
    by (simp add: no_key_proxy_def key_load_fails_def)
  have k1: "fst (privateKey (key_file (good_startup\<lparr>key_file := None\<rparr>))
            (parse_key (good_startup\<lparr>key_file := None\<rparr>))) =
            ([ReadFile ''tetherKey'', Log ''failed to load private key: %v''] :: string action list)"
    by (simp add: privateKey_def)
  have k2: "fst (privateKey (p_key_file no_key_proxy) (p_parse_key no_key_proxy)) =
            ([ReadFile ''tetherKey'', ParsePrivateKey, Log ''failed to parse private key: %v'']
              :: GlobalHandler action list)"
    by (simp add: privateKey_def no_key_proxy_def)
  show ?thesis
    using key_failure_aborts [of "good_startup\<lparr>key_file := None\<rparr>" good_cycle "[good_cycle]"
        no_key_proxy "\<lambda>s. s" "[Accepted 9 good_guest]"] h1 h2 k1 k2
    by (simp del: main_loop.simps)
qed

text \<open>
  The claim as stated, no device and no listener in a run whose key load fails, fails for
  the direct agent: the run has started the listener on port 6060 and created the entropy
  device before it reads the key.
\<close>

theorem key_failure_counterexample:
  "main (good_startup\<lparr>key_file := None\<rparr>) good_cycle [] =
     (FatalExit,
      [Go_ListenAndServe ''0.0.0.0:6060'', Mknod ''/.tether/urandom'' (Mkdev 1 9),
       Open ''/.tether/urandom'', ReadFile ''tetherKey'', Log ''failed to load private key: %v''])"
  by (simp add: main_def good_startup_def privateKey_def)

section \<open>The console-driven handler\<close>

text \<open>
  C5. In the operations of a handler, the command that sets the sentinel prompt is started
  after the startup script and never before it: the commands started are none, the startup
  script alone, or the startup script followed by the prompt command; and wherever the
  prompt command stands in the trace, the startup script stands before it and not after.
\<close>

theorem prompt_after_autoexec:
  "(commands (handleConnectionFromGuest strip c g) = []
    \<or> commands (handleConnectionFromGuest strip c g) = [autoexec]
    \<or> commands (handleConnectionFromGuest strip c g) = [autoexec, set_prompt])
   \<and> (\<forall>pre post. handleConnectionFromGuest strip c g = pre @ CmdStart set_prompt # post \<longrightarrow>
         CmdStart autoexec \<in> set pre \<and> CmdStart autoexec \<notin> set post)"
proof (intro conjI allI impI)
  show "commands (handleConnectionFromGuest strip c g) = []
    \<or> commands (handleConnectionFromGuest strip c g) = [autoexec]
    \<or> commands (handleConnectionFromGuest strip c g) = [autoexec, set_prompt]"
    by (rule handler_commands)
next
  fix pre post
  assume t: "handleConnectionFromGuest strip c g = pre @ CmdStart set_prompt # post"
  have c: "commands (handleConnectionFromGuest strip c g)
             = commands pre @ set_prompt # commands post"
    by (simp add: t commands_append)
  from handler_commands [of strip c g] c autoexec_neq_set_prompt
  have "commands pre = [autoexec] \<and> commands post = []"
    by (auto simp: append_eq_Cons_conv Cons_eq_append_conv)
  then show "CmdStart autoexec \<in> set pre" and "CmdStart autoexec \<notin> set post"
    using commands_mem [of autoexec pre] commands_mem [of autoexec post] by simp_all
qed

text \<open>A guest that answers every step: the prompt command is the ninth operation.\<close>

theorem prompt_after_autoexec_witness:
  "handleConnectionFromGuest (\<lambda>s. s) 9 good_guest =
     [Log ''Establishing the connection to docker daemon'', Dial ''localhost:2377'',
      Log ''Handshaking with daemon'', HandshakeServer, DiscardUntilPrompt,
      CmdCombinedOutput type_dockerid,
      Log (''Docker ID passed back from container = '' @ [dquote] @ ''%s'' @ [dquote]),
      CmdStart autoexec]
     @ CmdStart set_prompt
     # [Log ''Initiating ssh command logic with handler.id = %s'', StartTether good_handler,
        Close ''dconn'', Close ''guestConn'']
   \<and> CmdStart autoexec \<in> set
     [Log ''Establishing the connection to docker daemon'' :: GlobalHandler action, Dial ''localhost:2377'',
      Log ''Handshaking with daemon'', HandshakeServer, DiscardUntilPrompt,
      CmdCombinedOutput type_dockerid,
      Log (''Docker ID passed back from container = '' @ [dquote] @ ''%s'' @ [dquote]),
      CmdStart autoexec]
   \<and> CmdStart autoexec \<notin> set
       [Log ''Initiating ssh command logic with handler.id = %s'', StartTether good_handler,
        Close ''dconn'', Close ''guestConn'']"
proof -
  have r: "CmdStart autoexec \<in> set
     [Log ''Establishing the connection to docker daemon'' :: GlobalHandler action, Dial ''localhost:2377'',
      Log ''Handshaking with daemon'', HandshakeServer, DiscardUntilPrompt,
      CmdCombinedOutput type_dockerid,
      Log (''Docker ID passed back from container = '' @ [dquote] @ ''%s'' @ [dquote]),
      CmdStart autoexec]
   \<and> CmdStart autoexec \<notin> set
       [Log ''Initiating ssh command logic with handler.id = %s'', StartTether good_handler,
        Close ''dconn'', Close ''guestConn'']"
    by (rule prompt_after_autoexec [of "\<lambda>s. s" 9 good_guest, THEN conjunct2, THEN spec, THEN spec,
          THEN mp, OF good_guest_trace])
  show ?thesis by (rule conjI [OF good_guest_trace r])
qed

text \<open>
  C10. Every handler passed to the session layer has \<^verbatim>\<open>allowExec\<close> true: in the
  operations of one handler task, and in those of every handler task the proxy starts,
  whatever the startup answers, the accepted connections and the guests are.
\<close>

theorem sessions_allow_exec:
  "(\<forall>h\<in>set (started (handleConnectionFromGuest strip c g)). allowExec h)
   \<and> (\<forall>t\<in>set (snd (snd (proxy_main strip ps accs))). \<forall>h\<in>set (started t). allowExec h)"
proof (intro conjI ballI)
  fix h assume "h \<in> set (started (handleConnectionFromGuest strip c g))"
  then show "allowExec h" by (auto simp: handler_started split: if_splits)
next
  fix t h
  assume t: "t \<in> set (snd (snd (proxy_main strip ps accs)))" and h: "h \<in> set (started t)"
  from t have "t \<in> set (snd (listen_loop strip accs))"
    by (auto simp: proxy_main_def split: prod.splits option.splits)
  then obtain conn g where "t = handleConnectionFromGuest strip conn g"
    by (auto simp: listen_loop_handlers)
  with h show "allowExec h" by (auto simp: handler_started split: if_splits)
qed

text \<open>One accepted connection whose guest answers every step: its session allows exec.\<close>

theorem sessions_allow_exec_witness:
  "good_handler \<in> set (started (handleConnectionFromGuest (\<lambda>s. s) 9 good_guest))
   \<and> handleConnectionFromGuest (\<lambda>s. s) 9 good_guest
       \<in> set (snd (snd (proxy_main (\<lambda>s. s) good_proxy [Accepted 9 good_guest])))
   \<and> allowExec good_handler"
proof -
  have m: "good_handler \<in> set (started (handleConnectionFromGuest (\<lambda>s. s) 9 good_guest))"
    by (simp add: handler_started good_guest_def good_handler_def)
  have p: "handleConnectionFromGuest (\<lambda>s. s) 9 good_guest
       \<in> set (snd (snd (proxy_main (\<lambda>s. s) good_proxy [Accepted 9 good_guest])))"
    by (simp add: proxy_main_def good_proxy_def privateKey_def)
  have "allowExec good_handler"
    using sessions_allow_exec [of "\<lambda>s. s" 9 good_guest good_proxy "[Accepted 9 good_guest]"] m p
    by blast
  with m p show ?thesis by simp
qed

text \<open>
  C8 (as amended). A failure to dial the local daemon, or of either started bootstrap
  command (the startup script, the prompt command), is logged and the handler returns
  without invoking the session layer, closing the connections it holds. How the handshake
  ends and the error of the identity capture are not examined: the operations of the
  handler, its log lines included, are the same whatever they are, so a failure of either
  is neither logged nor abandons the attempt, and the session layer is invoked exactly
  when the dial and the two started commands succeed. The listen loop starts a handler
  task for every accepted connection, whatever the earlier handlers did, and goes back to
  \<^verbatim>\<open>AcceptTCP\<close>.
\<close>

theorem handler_failure_abandons:
  "(dial_err g = Some e \<longrightarrow>
      handleConnectionFromGuest strip c g =
        [Log ''Establishing the connection to docker daemon'', Dial ''localhost:2377'',
         Log ''failed to create loopback connection to daemon: %s'', Close ''guestConn''])
   \<and> (dial_err g = None \<and> start_err g autoexec = Some e \<longrightarrow>
        started (handleConnectionFromGuest strip c g) = []
        \<and> (\<exists>t. handleConnectionFromGuest strip c g =
               t @ [CmdStart autoexec, Log (''error running '' @ autoexec @ '': %s''),
                    Close ''dconn'', Close ''guestConn'']))
   \<and> (dial_err g = None \<and> start_err g autoexec = None \<and> start_err g set_prompt = Some e \<longrightarrow>
        started (handleConnectionFromGuest strip c g) = []
        \<and> (\<exists>t. handleConnectionFromGuest strip c g =
               t @ [CmdStart set_prompt, Log ''error setting initial prompt: %s'',
                    Close ''dconn'', Close ''guestConn'']))
   \<and> handleConnectionFromGuest strip c
         (g\<lparr>handshake_res := hr, captured := (fst (captured g), ce)\<rparr>)
       = handleConnectionFromGuest strip c g
   \<and> started (handleConnectionFromGuest strip c g) =
       (if dial_err g = None \<and> start_err g autoexec = None \<and> start_err g set_prompt = None
        then [\<lparr>handler_id = strip (fst (captured g)), dosconn = c, allowExec = True\<rparr>]
        else [])
   \<and> spawned (fst (listen_loop strip accs)) = map fst (accepted accs)
   \<and> snd (listen_loop strip accs) =
       map (\<lambda>(conn, g). handleConnectionFromGuest strip conn g) (accepted accs)
   \<and> last (fst (listen_loop strip accs)) = AcceptTCP"
proof (intro conjI impI)
  assume "dial_err g = Some e"
  then show "handleConnectionFromGuest strip c g =
        [Log ''Establishing the connection to docker daemon'', Dial ''localhost:2377'',
         Log ''failed to create loopback connection to daemon: %s'', Close ''guestConn'']"
    by (simp add: handler_trace)
next
  assume a: "dial_err g = None \<and> start_err g autoexec = Some e"
  then show "started (handleConnectionFromGuest strip c g) = []"
    by (simp add: handler_started)
  show "\<exists>t. handleConnectionFromGuest strip c g =
               t @ [CmdStart autoexec, Log (''error running '' @ autoexec @ '': %s''),
                    Close ''dconn'', Close ''guestConn'']"
    using a by (simp add: handler_trace)
next
  assume a: "dial_err g = None \<and> start_err g autoexec = None \<and> start_err g set_prompt = Some e"
  then show "started (handleConnectionFromGuest strip c g) = []"
    by (simp add: handler_started)
  show "\<exists>t. handleConnectionFromGuest strip c g =
               t @ [CmdStart set_prompt, Log ''error setting initial prompt: %s'',
                    Close ''dconn'', Close ''guestConn'']"
    using a by (simp add: handler_trace)
next
  show "handleConnectionFromGuest strip c
         (g\<lparr>handshake_res := hr, captured := (fst (captured g), ce)\<rparr>)
       = handleConnectionFromGuest strip c g"
    by (simp add: handler_trace split: option.splits)
  show "started (handleConnectionFromGuest strip c g) =
       (if dial_err g = None \<and> start_err g autoexec = None \<and> start_err g set_prompt = None
        then [\<lparr>handler_id = strip (fst (captured g)), dosconn = c, allowExec = True\<rparr>]
        else [])"
    by (rule handler_started)
  show "spawned (fst (listen_loop strip accs)) = map fst (accepted accs)"
    by (rule listen_loop_spawned)
  show "snd (listen_loop strip accs) =
       map (\<lambda>(conn, g). handleConnectionFromGuest strip conn g) (accepted accs)"
    by (rule listen_loop_handlers)
  show "last (fst (listen_loop strip accs)) = AcceptTCP"
    by (rule listen_loop_last)
qed

text \<open>
  A refused dial, a failing startup script, a failing prompt command; a guest whose
  identity capture fails, for which a session is started, and the same with a failing
  handshake as well; and a listen loop that accepts after two failed attempts.
\<close>

theorem handler_failure_abandons_witness:
  "handleConnectionFromGuest (\<lambda>s. s) 1 refused_guest =
        [Log ''Establishing the connection to docker daemon'', Dial ''localhost:2377'',
         Log ''failed to create loopback connection to daemon: %s'', Close ''guestConn'']
   \<and> started (handleConnectionFromGuest (\<lambda>s. s) 2 autoexec_fails_guest) = []
   \<and> started (handleConnectionFromGuest (\<lambda>s. s) 3 prompt_fails_guest) = []
   \<and> handleConnectionFromGuest (\<lambda>s. s) 5
         (capture_fails_guest\<lparr>handshake_res := Some (Err ''handshake timed out''),
            captured := ([], Some (Err ''read failed''))\<rparr>)
       = handleConnectionFromGuest (\<lambda>s. s) 5 capture_fails_guest
   \<and> started (handleConnectionFromGuest (\<lambda>s. s) 5 capture_fails_guest) =
       [\<lparr>handler_id = [], dosconn = 5, allowExec = True\<rparr>]
   \<and> spawned (fst (listen_loop (\<lambda>s. s)
         [Accepted 1 refused_guest, AcceptError eio, Accepted 2 autoexec_fails_guest,
          Accepted 4 good_guest])) = [1, 2, 4]"
proof -
  let ?e = "Err ''connection refused''" and ?w = "Err ''write failed''"
  let ?accs = "[Accepted 1 refused_guest, AcceptError eio, Accepted 2 autoexec_fails_guest,
          Accepted 4 good_guest]"
  have h1: "dial_err refused_guest = Some ?e"
    by (simp add: refused_guest_def)
  have h2: "dial_err autoexec_fails_guest = None \<and> start_err autoexec_fails_guest autoexec = Some ?w"
    by (simp add: autoexec_fails_guest_def good_guest_def)
  have h3: "dial_err prompt_fails_guest = None \<and> start_err prompt_fails_guest autoexec = None
      \<and> start_err prompt_fails_guest set_prompt = Some ?w"
    by (simp add: prompt_fails_guest_def good_guest_def autoexec_neq_set_prompt)
  have h4: "dial_err capture_fails_guest = None \<and> start_err capture_fails_guest autoexec = None
      \<and> start_err capture_fails_guest set_prompt = None \<and> fst (captured capture_fails_guest) = []"
    by (simp add: capture_fails_guest_def good_guest_def)
  have a: "map fst (accepted ?accs) = [1, 2, 4]"
    by simp
  show ?thesis
    using h1 h2 h3 h4 a
      handler_failure_abandons [of refused_guest ?e "\<lambda>s. s" 1 None None ?accs]
      handler_failure_abandons [of autoexec_fails_guest ?w "\<lambda>s. s" 2 None None "[]"]
      handler_failure_abandons [of prompt_fails_guest ?w "\<lambda>s. s" 3 None None "[]"]
      handler_failure_abandons [of capture_fails_guest ?w "\<lambda>s. s" 5
        "Some (Err ''read failed'')" "Some (Err ''handshake timed out'')" "[]"]
    by (simp del: listen_loop.simps)
qed

text \<open>
  The claim as stated, any stage, fails for the handshake and for the identity capture:
  line 135 calls the handshake as a statement and line 139 assigns the error of the capture
  to \<^verbatim>\<open>_\<close>, so with either failing no failure is logged and the session layer is
  invoked (with an empty identity when the capture fails).
\<close>

theorem capture_failure_counterexample:
  "handleConnectionFromGuest (\<lambda>s. s) 9 capture_fails_guest =
     [Log ''Establishing the connection to docker daemon'', Dial ''localhost:2377'',
      Log ''Handshaking with daemon'', HandshakeServer, DiscardUntilPrompt,
      CmdCombinedOutput type_dockerid,
      Log (''Docker ID passed back from container = '' @ [dquote] @ ''%s'' @ [dquote]),
      CmdStart autoexec, CmdStart set_prompt,
      Log ''Initiating ssh command logic with handler.id = %s'',
      StartTether \<lparr>handler_id = [], dosconn = 9, allowExec = True\<rparr>,
      Close ''dconn'', Close ''guestConn'']
   \<and> handleConnectionFromGuest (\<lambda>s. s) 9 handshake_fails_guest =
     [Log ''Establishing the connection to docker daemon'', Dial ''localhost:2377'',
      Log ''Handshaking with daemon'', HandshakeServer, DiscardUntilPrompt,
      CmdCombinedOutput type_dockerid,
      Log (''Docker ID passed back from container = '' @ [dquote] @ ''%s'' @ [dquote]),
      CmdStart autoexec, CmdStart set_prompt,
      Log ''Initiating ssh command logic with handler.id = %s'',
      StartTether \<lparr>handler_id = ''C3PO0042'', dosconn = 9, allowExec = True\<rparr>,
      Close ''dconn'', Close ''guestConn'']"
  by (simp add: handler_trace capture_fails_guest_def handshake_fails_guest_def good_guest_def)

section \<open>The identity file\<close>

text \<open>
  C9. For a readable identity file, \<^verbatim>\<open>id()\<close> returns the first 64 bytes of the
  contents when they are longer than 64 bytes, and the contents unchanged when they are
  64 bytes or shorter.
\<close>

theorem id_file_first_64:
  "(64 < length bytes \<longrightarrow> id_file (Some bytes) = Inr (take 64 bytes) \<and> length (take 64 bytes) = 64)
   \<and> (length bytes \<le> 64 \<longrightarrow> id_file (Some bytes) = Inr bytes)"
  by (simp add: id_file_def)

text \<open>A file of 65 bytes and a file of 8 bytes.\<close>

theorem id_file_first_64_witness:
  "64 < length (replicate 65 (CHR ''x'')) \<and> id_file (Some (replicate 65 (CHR ''x''))) = Inr (replicate 64 (CHR ''x''))
   \<and> length ''C3PO0042'' \<le> 64 \<and> id_file (Some ''C3PO0042'') = Inr ''C3PO0042''"
  using id_file_first_64 [of "replicate 65 (CHR ''x'')"] id_file_first_64 [of "''C3PO0042''"]
  by simp

end
